theory Spec2Isabelle
  imports
    Complex_Main
    "HOL-Library.Char_ord"
    "HOL-Library.List_Lexorder"
    "HOL-Library.Product_Lexorder"
begin

section \<open>The ECO notebook: loader, unit normaliser, aggregator\<close>

text \<open>
  The notebook \<^verbatim>\<open>HW4/hw4.ipynb\<close> loads daily CSV files of household electricity
  readings with pandas, converts the power column to kilowatt-hours, and computes each
  appliance's share of its household's consumption. The definitions below follow the
  notebook's code cells statement by statement. The calls into the operating system and
  into pandas' parsers (\<^verbatim>\<open>os.listdir\<close>, \<^verbatim>\<open>pd.read_csv\<close>,
  \<^verbatim>\<open>pd.to_datetime\<close>) are parameters of the model, collected in an environment;
  every exception is a value \<open>Inl e\<close>.

  Numbers are exact rationals: rounding of binary floating point is not modelled. A cell
  of a table is \<open>Some x\<close> for a number and \<open>None\<close> for a missing value
  (pandas' NaN); a timestamp is \<open>Some d\<close> or \<open>None\<close> for pandas' NaT.
\<close>

subsection \<open>Exceptions\<close>

datatype py_error =
    FileNotFoundError
  | NotADirectoryError
  | EmptyDataError
  | ParserError
  | DateParseError
  | ValueError string
  | TypeError string

subsection \<open>Tables\<close>

type_synonym cell = "rat option"

text \<open>
  What \<^verbatim>\<open>pd.read_csv(file_path, header=None)\<close> returns: a table whose columns are
  labelled \<open>0, \<dots>, width - 1\<close>, and its rows.
\<close>

record csv_table =
  width :: nat
  body :: "cell list list"

text \<open>
  A row of a loaded table: the cells of the positional columns and the \<^verbatim>\<open>date\<close>
  column. A frame is the number of positional columns and the rows, in order.
\<close>

record 'd row =
  cells :: "cell list"
  date :: "'d option"

record 'd frame =
  ncols :: nat
  rows :: "'d row list"

subsection \<open>The environment\<close>

text \<open>
  \<open>listdir\<close> is \<^verbatim>\<open>os.listdir\<close>, \<open>parse_csv\<close> is the CSV parser behind
  \<^verbatim>\<open>pd.read_csv\<close>, \<open>to_datetime\<close> is \<^verbatim>\<open>pd.to_datetime\<close> on one string
  (it raises on a string that has no date format, and returns NaT on the empty string).
\<close>

record 'd env =
  listdir :: "string \<Rightarrow> py_error + string list"
  parse_csv :: "string \<Rightarrow> py_error + csv_table"
  to_datetime :: "string \<Rightarrow> py_error + 'd option"

text \<open>
  \<^verbatim>\<open>pd.read_csv\<close> raises \<^verbatim>\<open>EmptyDataError\<close> (no columns to parse from file) when
  the file has no column, so a table it returns has at least one.
\<close>

definition read_csv :: "'d env \<Rightarrow> string \<Rightarrow> py_error + csv_table" where
  "read_csv env file_path =
     (case parse_csv env file_path of
        Inl e \<Rightarrow> Inl e
      | Inr t \<Rightarrow> if width t = 0 then Inl EmptyDataError else Inr t)"

subsection \<open>String and path helpers of Python\<close>

text \<open>\<^verbatim>\<open>s.endswith(suffix)\<close>.\<close>

definition endswith :: "string \<Rightarrow> string \<Rightarrow> bool" where
  "endswith s suffix \<longleftrightarrow>
     length suffix \<le> length s \<and> drop (length s - length suffix) s = suffix"

text \<open>\<^verbatim>\<open>file[:-4]\<close>: all but the last four characters (empty when there are at most four).\<close>

definition stem :: "string \<Rightarrow> string" where
  "stem file = take (length file - 4) file"

text \<open>\<^verbatim>\<open>os.path.join(a, b)\<close> for two components, on POSIX.\<close>

definition path_join :: "string \<Rightarrow> string \<Rightarrow> string" where
  "path_join a b =
     (if b \<noteq> [] \<and> hd b = CHR ''/'' then b
      else if a = [] \<or> last a = CHR ''/'' then a @ b
      else a @ ''/'' @ b)"

subsection \<open>The pandas operations the loader uses\<close>

text \<open>\<^verbatim>\<open>df['date'] = d\<close> on a table fresh from \<^verbatim>\<open>read_csv\<close>: every row gets the date.\<close>

definition set_date :: "csv_table \<Rightarrow> 'd option \<Rightarrow> 'd frame" where
  "set_date df d =
     \<lparr>ncols = width df, rows = map (\<lambda>cs. \<lparr>cells = cs, date = d\<rparr>) (body df)\<rparr>"

text \<open>
  \<^verbatim>\<open>pd.concat(data, ignore_index=True)\<close>: raises \<^verbatim>\<open>ValueError\<close> on an empty list;
  otherwise the columns are the union of the frames' columns and the rows are the frames'
  rows in order, a row of a narrower frame filled with NaN in the columns it lacks.
\<close>

definition pad :: "nat \<Rightarrow> 'd row \<Rightarrow> 'd row" where
  "pad n r = r\<lparr>cells := cells r @ replicate (n - length (cells r)) None\<rparr>"

definition max_ncols :: "'d frame list \<Rightarrow> nat" where
  "max_ncols data = foldr max (map ncols data) 0"

definition pd_concat :: "'d frame list \<Rightarrow> py_error + 'd frame" where
  "pd_concat data =
     (if data = [] then Inl (ValueError ''No objects to concatenate'')
      else Inr \<lparr>ncols = max_ncols data,
                rows = concat (map (\<lambda>df. map (pad (max_ncols data)) (rows df)) data)\<rparr>)"

text \<open>
  The comparison \<^verbatim>\<open>combined_data['date'] < time_point\<close> of one timestamp with the
  parsed cutoff: false as soon as either side is NaT.
\<close>

definition before :: "('d::linorder) option \<Rightarrow> 'd option \<Rightarrow> bool" where
  "before d c = (case (d, c) of (Some x, Some y) \<Rightarrow> x < y | _ \<Rightarrow> False)"

text \<open>
  \<^verbatim>\<open>combined_data[combined_data['date'] < time_point]\<close>: pandas parses the string
  \<open>time_point\<close> to a timestamp and raises \<^verbatim>\<open>TypeError\<close> when it cannot; the rows
  where the comparison is true are kept, in order.
\<close>

definition filter_before :: "('d::linorder) env \<Rightarrow> string \<Rightarrow> 'd frame \<Rightarrow> py_error + 'd frame" where
  "filter_before env time_point combined_data =
     (case to_datetime env time_point of
        Inl e \<Rightarrow> Inl (TypeError ''Invalid comparison between dtype=datetime64[ns] and str'')
      | Inr c \<Rightarrow> Inr (combined_data\<lparr>rows := filter (\<lambda>r. before (date r) c) (rows combined_data)\<rparr>))"

subsection \<open>The loader\<close>

text \<open>
  \<^verbatim>\<open>
  global time_point
  time_point = '2012-07-01'

  def load_data(folder_path):
      data = []
      for file in sorted(os.listdir(folder_path)):
          if file.endswith(".csv"):
              file_path = os.path.join(folder_path, file)
              df = pd.read_csv(file_path, header=None)
              df['date'] = pd.to_datetime(file[:-4])
              data.append(df)
      combined_data = pd.concat(data, ignore_index=True)
      combined_data = combined_data[combined_data['date'] < time_point]
      return combined_data
  \<close>
  The global \<open>time_point\<close> is a parameter of \<open>load_data\<close>. The body of the
  \<^verbatim>\<open>for\<close> loop is \<open>load_files\<close>, with the list \<open>data\<close> as accumulator.
\<close>

definition time_point_default :: string where
  "time_point_default = ''2012-07-01''"

fun load_files :: "'d env \<Rightarrow> string \<Rightarrow> string list \<Rightarrow> 'd frame list \<Rightarrow> py_error + 'd frame list" where
  "load_files env folder_path [] data = Inr data"
| "load_files env folder_path (file # files) data =
     (if endswith file ''.csv'' then
        (case read_csv env (path_join folder_path file) of
           Inl e \<Rightarrow> Inl e
         | Inr df \<Rightarrow>
             (case to_datetime env (stem file) of
                Inl e \<Rightarrow> Inl e
              | Inr d \<Rightarrow> load_files env folder_path files (data @ [set_date df d])))
      else load_files env folder_path files data)"

definition load_data :: "('d::linorder) env \<Rightarrow> string \<Rightarrow> string \<Rightarrow> py_error + 'd frame" where
  "load_data env time_point folder_path =
     (case listdir env folder_path of
        Inl e \<Rightarrow> Inl e
      | Inr names \<Rightarrow>
          (case load_files env folder_path (sort names) [] of
             Inl e \<Rightarrow> Inl e
           | Inr data \<Rightarrow>
               (case pd_concat data of
                  Inl e \<Rightarrow> Inl e
                | Inr combined_data \<Rightarrow> filter_before env time_point combined_data)))"

subsection \<open>The unit and schema normaliser\<close>

text \<open>
  \<^verbatim>\<open>
  for sm_data in [sm_data_04, sm_data_05, sm_data_06]:
      sm_data.columns = ['powerallphases', 'powerphase1', ..., 'extra_col2', 'date']
      sm_data['powerallphases'] = sm_data['powerallphases'] / (3600 * 1000)

  for household_plugs_data in [plugs_data_04, plugs_data_05, plugs_data_06]:
      for appliance, df in household_plugs_data.items():
          df.columns = ['power', 'date']
          df['power'] = df['power'] / (3600 * 1000)
  \<close>
\<close>

definition sm_columns :: "string list" where
  "sm_columns =
     [''powerallphases'', ''powerphase1'', ''powerphase2'', ''powerphase3'',
      ''voltagephase1'', ''voltagephase2'', ''voltagephase3'',
      ''currentphase1'', ''currentphase2'', ''currentphase3'',
      ''pfphase1'', ''pfphase2'', ''pfphase3'', ''freq'', ''extra_col1'', ''extra_col2'',
      ''date'']"

definition plug_columns :: "string list" where
  "plug_columns = [''power'', ''date'']"

text \<open>
  \<^verbatim>\<open>df.columns = names\<close> renames the columns by position and raises
  \<^verbatim>\<open>ValueError\<close> unless there are as many names as columns (the positional columns
  and \<^verbatim>\<open>date\<close>). The model keeps addressing a column by its position.
\<close>

definition set_columns :: "string list \<Rightarrow> 'd frame \<Rightarrow> py_error + 'd frame" where
  "set_columns names df =
     (if length names = ncols df + 1 then Inr df
      else Inl (ValueError ''Length mismatch''))"

text \<open>Division of one cell by \<^verbatim>\<open>3600 * 1000\<close>; NaN stays NaN.\<close>

definition kwh :: "rat \<Rightarrow> rat" where
  "kwh x = x / (3600 * 1000)"

definition to_kwh :: "cell \<Rightarrow> cell" where
  "to_kwh c = map_option kwh c"

text \<open>
  The column named first (\<^verbatim>\<open>powerallphases\<close>, \<^verbatim>\<open>power\<close>) is column 0, a column
  of numbers since every file has at least one column.
\<close>

definition column0 :: "cell list \<Rightarrow> cell" where
  "column0 cs = (case cs of [] \<Rightarrow> None | c # _ \<Rightarrow> c)"

definition power_of :: "('d, 'a) row_scheme \<Rightarrow> cell" where
  "power_of r = column0 (cells r)"

definition convert_row :: "'d row \<Rightarrow> 'd row" where
  "convert_row r = r\<lparr>cells := (case cells r of [] \<Rightarrow> [] | c # cs \<Rightarrow> to_kwh c # cs)\<rparr>"

definition convert_power :: "'d frame \<Rightarrow> 'd frame" where
  "convert_power df = df\<lparr>rows := map convert_row (rows df)\<rparr>"

definition normalize_sm :: "'d frame \<Rightarrow> py_error + 'd frame" where
  "normalize_sm sm_data =
     (case set_columns sm_columns sm_data of
        Inl e \<Rightarrow> Inl e
      | Inr df \<Rightarrow> Inr (convert_power df))"

definition normalize_plug :: "'d frame \<Rightarrow> py_error + 'd frame" where
  "normalize_plug df0 =
     (case set_columns plug_columns df0 of
        Inl e \<Rightarrow> Inl e
      | Inr df \<Rightarrow> Inr (convert_power df))"

subsection \<open>Combining the households\<close>

text \<open>
  \<^verbatim>\<open>
  sm_data_04['household'] = 'Household 4'   (and 5, 6)
  combined_sm_data = pd.concat([sm_data_04, sm_data_05, sm_data_06])
  combined_plugs_data = pd.concat([
      pd.concat([df.assign(appliance=appliance) for appliance, df in plugs_data_04.items()])
        .assign(household='Household 4'),
      ... 'Household 5', ... 'Household 6'])
  \<close>
  A row of a combined table carries its household label, a row of the combined plug table
  its appliance code as well. The dictionaries \<open>plugs_data_04\<close> and the others are association
  lists in insertion order.
\<close>

record 'd sm_row = "'d row" +
  household :: string

record 'd plug_row = "'d sm_row" +
  appliance :: string

definition with_household :: "string \<Rightarrow> 'd frame \<Rightarrow> 'd sm_row list" where
  "with_household h df = map (\<lambda>r. \<lparr>cells = cells r, date = date r, household = h\<rparr>) (rows df)"

definition with_appliances :: "string \<Rightarrow> (string \<times> 'd frame) list \<Rightarrow> 'd plug_row list" where
  "with_appliances h plugs_data =
     concat (map (\<lambda>(a, df).
                    map (\<lambda>r. \<lparr>cells = cells r, date = date r, household = h, appliance = a\<rparr>) (rows df))
                 plugs_data)"

definition combined_sm_data :: "'d frame \<Rightarrow> 'd frame \<Rightarrow> 'd frame \<Rightarrow> 'd sm_row list" where
  "combined_sm_data sm_data_04 sm_data_05 sm_data_06 =
     with_household ''Household 4'' sm_data_04 @
     with_household ''Household 5'' sm_data_05 @
     with_household ''Household 6'' sm_data_06"

definition combined_plugs_data ::
  "(string \<times> 'd frame) list \<Rightarrow> (string \<times> 'd frame) list \<Rightarrow> (string \<times> 'd frame) list \<Rightarrow> 'd plug_row list" where
  "combined_plugs_data plugs_data_04 plugs_data_05 plugs_data_06 =
     with_appliances ''Household 4'' plugs_data_04 @
     with_appliances ''Household 5'' plugs_data_05 @
     with_appliances ''Household 6'' plugs_data_06"

subsection \<open>The aggregator\<close>

text \<open>
  \<^verbatim>\<open>
  total_appliance_power = combined_plugs_data.groupby(['household', 'appliance'])
                            .agg({'power': 'sum'}).reset_index()
  total_household_power = combined_sm_data.groupby(['household'])
                            .agg({'powerallphases': 'sum'}).reset_index()
  total_power = total_appliance_power.merge(total_household_power, on='household')
  total_power['percentage'] = total_power['power'] / total_power['powerallphases'] * 100
  \<close>
  \<^verbatim>\<open>groupby\<close> makes one group for each key that occurs, in sorted order of the keys;
  \<^verbatim>\<open>sum\<close> adds the numbers of a group and skips NaN.
\<close>

definition nansum :: "cell list \<Rightarrow> rat" where
  "nansum cs = sum_list (map (\<lambda>c. case c of None \<Rightarrow> 0 | Some x \<Rightarrow> x) cs)"

record appliance_total =
  ap_household :: string
  ap_appliance :: string
  ap_power :: rat

record household_total =
  hp_household :: string
  hp_powerallphases :: rat

definition total_appliance_power :: "'d plug_row list \<Rightarrow> appliance_total list" where
  "total_appliance_power plugs =
     map (\<lambda>k. \<lparr>ap_household = fst k, ap_appliance = snd k,
                ap_power = nansum (map power_of
                  (filter (\<lambda>r. (household r, appliance r) = k) plugs))\<rparr>)
         (sort (remdups (map (\<lambda>r. (household r, appliance r)) plugs)))"

definition total_household_power :: "'d sm_row list \<Rightarrow> household_total list" where
  "total_household_power sm =
     map (\<lambda>h. \<lparr>hp_household = h,
                hp_powerallphases = nansum (map power_of (filter (\<lambda>r. household r = h) sm))\<rparr>)
         (sort (remdups (map household sm)))"

text \<open>
  \<^verbatim>\<open>left.merge(right, on='household')\<close> is an inner join: every row of the left table
  is paired with every row of the right table that has the same household, in the order
  of the left table.
\<close>

record merged_row =
  tp_household :: string
  tp_appliance :: string
  tp_power :: rat
  tp_powerallphases :: rat

definition merge_on_household :: "appliance_total list \<Rightarrow> household_total list \<Rightarrow> merged_row list" where
  "merge_on_household left right =
     concat (map (\<lambda>a. map (\<lambda>h. \<lparr>tp_household = ap_household a, tp_appliance = ap_appliance a,
                                  tp_power = ap_power a, tp_powerallphases = hp_powerallphases h\<rparr>)
                            (filter (\<lambda>h. hp_household h = ap_household a) right))
                 left)"

text \<open>
  Division of floating-point columns raises nothing: where the divisor is zero the result
  is \<^verbatim>\<open>inf\<close>, \<^verbatim>\<open>-inf\<close> or \<^verbatim>\<open>nan\<close>, here the one value \<open>NonFinite\<close>, and it
  stays so when multiplied by 100.
\<close>

datatype quotient = Finite rat | NonFinite

definition fdiv :: "rat \<Rightarrow> rat \<Rightarrow> quotient" where
  "fdiv a b = (if b = 0 then NonFinite else Finite (a / b))"

definition ftimes :: "quotient \<Rightarrow> rat \<Rightarrow> quotient" where
  "ftimes q c = (case q of Finite x \<Rightarrow> Finite (x * c) | NonFinite \<Rightarrow> NonFinite)"

record share_row = merged_row +
  percentage :: quotient

definition add_percentage :: "merged_row list \<Rightarrow> share_row list" where
  "add_percentage merged =
     map (\<lambda>r. \<lparr>tp_household = tp_household r, tp_appliance = tp_appliance r,
                tp_power = tp_power r, tp_powerallphases = tp_powerallphases r,
                percentage = ftimes (fdiv (tp_power r) (tp_powerallphases r)) 100\<rparr>)
         merged"

definition total_power :: "'d plug_row list \<Rightarrow> 'd sm_row list \<Rightarrow> share_row list" where
  "total_power plugs sm =
     add_percentage (merge_on_household (total_appliance_power plugs) (total_household_power sm))"

text \<open>
  The sum of percentage shares: a number when every share is one. The value a reading
  adds to the sum of its group: its number, nothing when it is missing.
\<close>

fun fadd :: "quotient \<Rightarrow> quotient \<Rightarrow> quotient" where
  "fadd (Finite a) (Finite b) = Finite (a + b)"
| "fadd _ _ = NonFinite"

fun fsum :: "quotient list \<Rightarrow> quotient" where
  "fsum [] = Finite 0"
| "fsum (q # qs) = fadd q (fsum qs)"

definition reading :: "('d, 'a) row_scheme \<Rightarrow> rat" where
  "reading r = (case power_of r of None \<Rightarrow> 0 | Some x \<Rightarrow> x)"

subsection \<open>The loader's contract, in the words of the specification\<close>

text \<open>
  The files the loader reads: the names that end in \<^verbatim>\<open>.csv\<close>, in lexicographic
  order. The rows it collects: the rows of each file, each with the date of its file's
  name, file after file.
\<close>

definition csv_files :: "string list \<Rightarrow> string list" where
  "csv_files names = filter (\<lambda>file. endswith file ''.csv'') (sort names)"

definition dated_rows :: "(string \<Rightarrow> csv_table) \<Rightarrow> (string \<Rightarrow> 'd option) \<Rightarrow> string list \<Rightarrow> 'd row list" where
  "dated_rows table day files =
     concat (map (\<lambda>file. map (\<lambda>cs. \<lparr>cells = cs, date = day file\<rparr>) (body (table file))) files)"

subsection \<open>A sample file system\<close>

text \<open>
  Three daily plug files dated 2012-06-27, 2012-06-28 and 2012-06-29 beside a file that
  is no CSV file, an empty directory, a directory without CSV files, a directory with a
  CSV file whose name is no date, and a directory with a CSV file whose name is only the
  extension. Dates are triples of year, month and day.
\<close>

type_synonym ymd = "nat \<times> nat \<times> nat"

definition example_listdir :: "string \<Rightarrow> py_error + string list" where
  "example_listdir folder_path =
     (if folder_path = ''eco/04_plugs_csv/01''
        then Inr [''2012-06-29.csv'', ''README.txt'', ''2012-06-27.csv'', ''2012-06-28.csv'']
      else if folder_path = ''eco/empty'' then Inr []
      else if folder_path = ''eco/docs'' then Inr [''README.txt'', ''csv'']
      else if folder_path = ''eco/mixed'' then Inr [''notes.csv'', ''2012-06-27.csv'']
      else if folder_path = ''eco/hidden'' then Inr [''.csv'', ''2012-06-27.csv'']
      else Inl FileNotFoundError)"

definition example_parse_csv :: "string \<Rightarrow> py_error + csv_table" where
  "example_parse_csv file_path =
     (if file_path = ''eco/04_plugs_csv/01/2012-06-27.csv''
        then Inr \<lparr>width = 1, body = [[Some 3600000], [Some 1800000]]\<rparr>
      else if file_path = ''eco/04_plugs_csv/01/2012-06-28.csv''
        then Inr \<lparr>width = 1, body = [[Some 7200000]]\<rparr>
      else if file_path = ''eco/04_plugs_csv/01/2012-06-29.csv''
        then Inr \<lparr>width = 1, body = [[Some 900000], [None]]\<rparr>
      else if file_path = ''eco/mixed/2012-06-27.csv''
        then Inr \<lparr>width = 1, body = [[Some 3600000]]\<rparr>
      else if file_path = ''eco/mixed/notes.csv''
        then Inr \<lparr>width = 1, body = [[Some 5]]\<rparr>
      else if file_path = ''eco/hidden/2012-06-27.csv''
        then Inr \<lparr>width = 1, body = [[Some 3600000]]\<rparr>
      else if file_path = ''eco/hidden/.csv''
        then Inr \<lparr>width = 1, body = [[Some 5]]\<rparr>
      else Inl FileNotFoundError)"

definition example_to_datetime :: "string \<Rightarrow> py_error + ymd option" where
  "example_to_datetime s =
     (if s = ''2012-06-27'' then Inr (Some (2012, 6, 27))
      else if s = ''2012-06-28'' then Inr (Some (2012, 6, 28))
      else if s = ''2012-06-29'' then Inr (Some (2012, 6, 29))
      else if s = ''2012-07-01'' then Inr (Some (2012, 7, 1))
      else if s = [] then Inr None
      else Inl DateParseError)"

definition example_env :: "ymd env" where
  "example_env =
     \<lparr>listdir = example_listdir, parse_csv = example_parse_csv, to_datetime = example_to_datetime\<rparr>"

definition example_table :: "string \<Rightarrow> csv_table" where
  "example_table file =
     (if file = ''2012-06-27.csv'' then \<lparr>width = 1, body = [[Some 3600000], [Some 1800000]]\<rparr>
      else if file = ''2012-06-28.csv'' then \<lparr>width = 1, body = [[Some 7200000]]\<rparr>
      else \<lparr>width = 1, body = [[Some 900000], [None]]\<rparr>)"

definition example_day :: "string \<Rightarrow> ymd option" where
  "example_day file =
     (if file = ''2012-06-27.csv'' then Some (2012, 6, 27)
      else if file = ''2012-06-28.csv'' then Some (2012, 6, 28)
      else Some (2012, 6, 29))"

text \<open>
  A meter table of sixteen columns with one reading of 3,600,000 watt-seconds, and a plug
  table with two readings, one of them missing.
\<close>

definition example_sm_data :: "ymd frame" where
  "example_sm_data =
     \<lparr>ncols = 16,
      rows = [\<lparr>cells = [Some 3600000, Some 1, Some 2, Some 3, Some 4, Some 5, Some 6, Some 7,
                        Some 8, Some 9, Some 10, Some 11, Some 12, Some 13, Some 14, Some 15],
               date = Some (2012, 6, 27)\<rparr>]\<rparr>"

definition example_plug_data :: "ymd frame" where
  "example_plug_data =
     \<lparr>ncols = 1,
      rows = [\<lparr>cells = [Some 1800000], date = Some (2012, 6, 27)\<rparr>,
              \<lparr>cells = [None], date = Some (2012, 6, 28)\<rparr>]\<rparr>"

text \<open>
  Combined tables of three households. Household 4 has meter readings 3 and 1 and two
  appliances with readings 1, 1 and 1; household 5 has the meter reading 0 and one
  appliance; household 6 has the meter reading 2 and one appliance with reading 2.
\<close>

definition meter_frame :: "rat list \<Rightarrow> ymd frame" where
  "meter_frame ps =
     \<lparr>ncols = 16,
      rows = map (\<lambda>p. \<lparr>cells = Some p # replicate 15 (Some 0), date = Some (2012, 6, 27)\<rparr>) ps\<rparr>"

definition plug_frame :: "rat list \<Rightarrow> ymd frame" where
  "plug_frame ps =
     \<lparr>ncols = 1, rows = map (\<lambda>p. \<lparr>cells = [Some p], date = Some (2012, 6, 27)\<rparr>) ps\<rparr>"

definition example_sm :: "ymd sm_row list" where
  "example_sm = combined_sm_data (meter_frame [3, 1]) (meter_frame [0]) (meter_frame [2])"

definition example_plugs :: "ymd plug_row list" where
  "example_plugs =
     combined_plugs_data
       [(''01'', plug_frame [1, 1]), (''02'', plug_frame [1])]
       [(''01'', plug_frame [1])]
       [(''01'', plug_frame [2])]"


section \<open>Properties\<close>

subsection \<open>The loader\<close>

lemma load_files_all:
  assumes "\<And>file. file \<in> set files \<Longrightarrow> endswith file ''.csv'' \<Longrightarrow>
             read_csv env (path_join folder_path file) = Inr (table file)"
      and "\<And>file. file \<in> set files \<Longrightarrow> endswith file ''.csv'' \<Longrightarrow>
             to_datetime env (stem file) = Inr (day file)"
  shows "load_files env folder_path files data =
           Inr (data @ map (\<lambda>file. set_date (table file) (day file))
                          (filter (\<lambda>file. endswith file ''.csv'') files))"
  using assms by (induction files arbitrary: data) simp_all

lemma rows_concat_set_date:
  "concat (map (\<lambda>file. map (pad n) (rows (set_date (table file) (day file)))) files)
     = map (pad n) (dated_rows table day files)"
  by (induction files) (simp_all add: dated_rows_def set_date_def)

lemma before_iff: "before d c \<longleftrightarrow> (\<exists>x y. d = Some x \<and> c = Some y \<and> x < y)"
  by (auto simp: before_def split: option.splits)

lemma load_data_success:
  assumes ls: "listdir env folder_path = Inr names"
    and rd: "\<forall>file \<in> set (csv_files names). read_csv env (path_join folder_path file) = Inr (table file)"
    and dt: "\<forall>file \<in> set (csv_files names). to_datetime env (stem file) = Inr (day file)"
    and ne: "csv_files names \<noteq> []"
    and tp: "to_datetime env time_point = Inr cutoff"
  shows "load_data env time_point folder_path =
           Inr \<lparr>ncols = foldr max (map (\<lambda>file. width (table file)) (csv_files names)) 0,
                rows = filter (\<lambda>r. before (date r) cutoff)
                         (map (pad (foldr max (map (\<lambda>file. width (table file)) (csv_files names)) 0))
                              (dated_rows table day (csv_files names)))\<rparr>"
proof -
  let ?files = "csv_files names"
  let ?data = "map (\<lambda>file. set_date (table file) (day file)) ?files"
  have lf: "load_files env folder_path (sort names) [] = Inr ?data"
    using load_files_all [of "sort names" env folder_path table day "[]"] rd dt
    by (simp add: csv_files_def)
  have mx: "max_ncols ?data = foldr max (map (\<lambda>file. width (table file)) ?files) 0"
    by (simp add: max_ncols_def set_date_def comp_def)
  have ne': "?data \<noteq> []" using ne by simp
  show ?thesis
    unfolding load_data_def
    using ls lf ne' tp
    by (simp add: pd_concat_def filter_before_def comp_def rows_concat_set_date mx)
qed

lemma load_data_filtered:
  assumes "load_data env time_point folder_path = Inr combined"
  shows "\<exists>c. to_datetime env time_point = Inr c \<and>
             (\<forall>r \<in> set (rows combined). before (date r) c)"
  using assms
  by (auto simp: load_data_def filter_before_def split: sum.splits)

text \<open>
  Claim C1. For every directory and every cutoff: whenever \<open>load_data\<close> returns a
  table, every row of it has a date strictly before the cutoff, and no row with a date
  on or after the cutoff is in it (when the cutoff string parses to NaT the table has no
  row). When the directory can be listed, every file in it whose name ends in
  \<^verbatim>\<open>.csv\<close> can be read and its name without the extension parses, there is at least
  one such file, and the cutoff parses, then \<open>load_data\<close> does return a table: its
  rows are the rows of those files in lexicographic order of the file names, each row
  with the date of its file, all in one table, and of these exactly the rows whose date
  is strictly before the cutoff.
\<close>

theorem load_data_before_cutoff:
  "(\<forall>combined. load_data env time_point folder_path = Inr combined \<longrightarrow>
      (\<exists>c. to_datetime env time_point = Inr (Some c) \<and>
           (\<forall>r \<in> set (rows combined). \<exists>d. date r = Some d \<and> d < c \<and> \<not> c \<le> d))
      \<or> (to_datetime env time_point = Inr None \<and> rows combined = []))
   \<and> (listdir env folder_path = Inr names \<longrightarrow>
      (\<forall>file \<in> set (csv_files names).
          read_csv env (path_join folder_path file) = Inr (table file)) \<longrightarrow>
      (\<forall>file \<in> set (csv_files names). to_datetime env (stem file) = Inr (day file)) \<longrightarrow>
      csv_files names \<noteq> [] \<longrightarrow>
      to_datetime env time_point = Inr cutoff \<longrightarrow>
      (\<exists>combined. load_data env time_point folder_path = Inr combined \<and>
         ncols combined = foldr max (map (\<lambda>file. width (table file)) (csv_files names)) 0 \<and>
         rows combined = filter (\<lambda>r. before (date r) cutoff)
                           (map (pad (ncols combined)) (dated_rows table day (csv_files names)))))"
proof (intro conjI allI impI)
  fix combined
  assume "load_data env time_point folder_path = Inr combined"
  from load_data_filtered [OF this] obtain c
    where tp: "to_datetime env time_point = Inr c"
      and rw: "\<forall>r \<in> set (rows combined). before (date r) c"
    by blast
  show "(\<exists>c. to_datetime env time_point = Inr (Some c) \<and>
           (\<forall>r \<in> set (rows combined). \<exists>d. date r = Some d \<and> d < c \<and> \<not> c \<le> d))
      \<or> (to_datetime env time_point = Inr None \<and> rows combined = [])"
  proof (cases c)
    case None
    with rw have "\<forall>r \<in> set (rows combined). False" by (simp add: before_iff)
    then have "rows combined = []" by (cases "rows combined") auto
    with tp None show ?thesis by simp
  next
    case (Some c')
    with rw have "\<forall>r \<in> set (rows combined). \<exists>d. date r = Some d \<and> d < c' \<and> \<not> c' \<le> d"
      by (auto simp: before_iff)
    with tp Some show ?thesis by blast
  qed
next
  assume ls: "listdir env folder_path = Inr names"
    and rd: "\<forall>file \<in> set (csv_files names).
               read_csv env (path_join folder_path file) = Inr (table file)"
    and dt: "\<forall>file \<in> set (csv_files names). to_datetime env (stem file) = Inr (day file)"
    and ne: "csv_files names \<noteq> []"
    and tp: "to_datetime env time_point = Inr cutoff"
  define n where "n = foldr max (map (\<lambda>file. width (table file)) (csv_files names)) 0"
  define combined :: "'a frame" where
    "combined = \<lparr>ncols = n, rows = filter (\<lambda>r. before (date r) cutoff)
                   (map (pad n) (dated_rows table day (csv_files names)))\<rparr>"
  have ld: "load_data env time_point folder_path = Inr combined"
    using load_data_success [OF ls rd dt ne tp] by (simp add: combined_def n_def)
  have nc: "ncols combined = foldr max (map (\<lambda>file. width (table file)) (csv_files names)) 0"
    by (simp add: combined_def n_def)
  have rw: "rows combined = filter (\<lambda>r. before (date r) cutoff)
                 (map (pad (ncols combined)) (dated_rows table day (csv_files names)))"
    by (simp add: combined_def)
  from ld nc rw
  show "\<exists>combined. load_data env time_point folder_path = Inr combined \<and>
         ncols combined = foldr max (map (\<lambda>file. width (table file)) (csv_files names)) 0 \<and>
         rows combined = filter (\<lambda>r. before (date r) cutoff)
                           (map (pad (ncols combined)) (dated_rows table day (csv_files names)))"
    by blast
qed

lemma example_csv_files:
  "csv_files [''2012-06-29.csv'', ''README.txt'', ''2012-06-27.csv'', ''2012-06-28.csv'']
     = [''2012-06-27.csv'', ''2012-06-28.csv'', ''2012-06-29.csv'']"
  by (simp add: csv_files_def endswith_def)

text \<open>
  The three daily files with the cutoff 2012-06-29: the rows of the first two files are
  returned, the file that is no CSV file and the file of 2012-06-29 contribute nothing.
\<close>

theorem load_data_before_cutoff_witness:
  "\<exists>combined. load_data example_env ''2012-06-29'' ''eco/04_plugs_csv/01'' = Inr combined \<and>
     rows combined =
       [\<lparr>cells = [Some 3600000], date = Some (2012, 6, 27)\<rparr>,
        \<lparr>cells = [Some 1800000], date = Some (2012, 6, 27)\<rparr>,
        \<lparr>cells = [Some 7200000], date = Some (2012, 6, 28)\<rparr>]"
proof -
  let ?names = "[''2012-06-29.csv'', ''README.txt'', ''2012-06-27.csv'', ''2012-06-28.csv'']"
  have ls: "listdir example_env ''eco/04_plugs_csv/01'' = Inr ?names"
    by (simp add: example_env_def example_listdir_def)
  have rd: "\<forall>file \<in> set (csv_files ?names).
              read_csv example_env (path_join ''eco/04_plugs_csv/01'' file) = Inr (example_table file)"
    by (simp add: example_csv_files read_csv_def path_join_def example_env_def
          example_parse_csv_def example_table_def)
  have dt: "\<forall>file \<in> set (csv_files ?names).
              to_datetime example_env (stem file) = Inr (example_day file)"
    by (simp add: example_csv_files stem_def example_env_def example_to_datetime_def example_day_def)
  have ne: "csv_files ?names \<noteq> []"
    by (simp add: example_csv_files)
  have tp: "to_datetime example_env ''2012-06-29'' = Inr (Some (2012, 6, 29))"
    by (simp add: example_env_def example_to_datetime_def)
  from load_data_before_cutoff [of example_env "''2012-06-29''" "''eco/04_plugs_csv/01''" ?names
      example_table example_day "Some (2012, 6, 29)"] ls rd dt ne tp
  obtain combined
    where ld: "load_data example_env ''2012-06-29'' ''eco/04_plugs_csv/01'' = Inr combined"
      and nc0: "ncols combined = foldr max (map (\<lambda>file. width (example_table file)) (csv_files ?names)) 0"
      and rw: "rows combined = filter (\<lambda>r. before (date r) (Some (2012, 6, 29)))
                 (map (pad (ncols combined)) (dated_rows example_table example_day (csv_files ?names)))"
    by blast
  have nc: "ncols combined = 1"
    unfolding nc0 by (simp add: example_csv_files example_table_def)
  have "rows combined =
       [\<lparr>cells = [Some 3600000], date = Some (2012, 6, 27)\<rparr>,
        \<lparr>cells = [Some 1800000], date = Some (2012, 6, 27)\<rparr>,
        \<lparr>cells = [Some 7200000], date = Some (2012, 6, 28)\<rparr>]"
    unfolding rw nc
    by (simp add: example_csv_files dated_rows_def example_table_def example_day_def
          pad_def before_def)
  with ld show ?thesis by blast
qed


lemma load_files_none:
  assumes "\<forall>file \<in> set files. \<not> endswith file ''.csv''"
  shows "load_files env folder_path files data = Inr data"
  using assms by (induction files arbitrary: data) simp_all

text \<open>
  Claim C5, as the code has it. \<^verbatim>\<open>pd.concat\<close> of an empty list raises, so for a
  directory that holds no file whose name ends in \<^verbatim>\<open>.csv\<close> (an empty directory
  among them) \<open>load_data\<close> returns no table: it fails with \<^verbatim>\<open>ValueError\<close>.
\<close>

theorem load_data_no_csv_fails:
  assumes ls: "listdir env folder_path = Inr names"
    and no: "\<forall>file \<in> set names. \<not> endswith file ''.csv''"
  shows "load_data env time_point folder_path = Inl (ValueError ''No objects to concatenate'')"
proof -
  have "load_files env folder_path (sort names) [] = Inr []"
    using no by (intro load_files_none) simp
  with ls show ?thesis
    by (simp add: load_data_def pd_concat_def)
qed

text \<open>
  Claim C5 as stated, that an empty directory gives an empty result, fails on the empty
  directory of the sample file system.
\<close>

theorem load_data_empty_directory_counterexample:
  "load_data example_env time_point_default ''eco/empty'' = Inl (ValueError ''No objects to concatenate'')
   \<and> \<not> (\<exists>combined. load_data example_env time_point_default ''eco/empty'' = Inr combined \<and> rows combined = [])"
  by (simp add: load_data_def example_env_def example_listdir_def pd_concat_def)

text \<open>
  A directory with two files, neither of which ends in \<^verbatim>\<open>.csv\<close>.
\<close>

theorem load_data_no_csv_fails_witness:
  "listdir example_env ''eco/docs'' = Inr [''README.txt'', ''csv'']
   \<and> \<not> endswith ''README.txt'' ''.csv'' \<and> \<not> endswith ''csv'' ''.csv''
   \<and> load_data example_env time_point_default ''eco/docs'' = Inl (ValueError ''No objects to concatenate'')"
proof -
  have ls: "listdir example_env ''eco/docs'' = Inr [''README.txt'', ''csv'']"
    by (simp add: example_env_def example_listdir_def)
  have no: "\<forall>file \<in> set [''README.txt'', ''csv'']. \<not> endswith file ''.csv''"
    by (simp add: endswith_def)
  from ls no load_data_no_csv_fails [OF ls no] show ?thesis by simp
qed

lemma load_files_bad_date:
  assumes "file \<in> set files" "endswith file ''.csv''" "to_datetime env (stem file) = Inl e"
  shows "\<exists>e' f. load_files env folder_path files data = Inl e' \<and>
           f \<in> set files \<and> endswith f ''.csv'' \<and>
           (read_csv env (path_join folder_path f) = Inl e' \<or> to_datetime env (stem f) = Inl e')"
  using assms
proof (induction files arbitrary: data)
  case Nil
  then show ?case by simp
next
  case (Cons f files)
  show ?case
  proof (cases "endswith f ''.csv''")
    case False
    with Cons.prems have "file \<in> set files" by auto
    from Cons.IH [OF this Cons.prems(2,3), of data] False show ?thesis
      by auto
  next
    case csv: True
    show ?thesis
    proof (cases "read_csv env (path_join folder_path f)")
      case (Inl e1)
      with csv show ?thesis by auto
    next
      case rd: (Inr df)
      show ?thesis
      proof (cases "to_datetime env (stem f)")
        case (Inl e2)
        with csv rd show ?thesis by auto
      next
        case dt: (Inr d)
        with Cons.prems have "file \<in> set files" by auto
        from Cons.IH [OF this Cons.prems(2,3), of "data @ [set_date df d]"] csv rd dt
        show ?thesis by auto
      qed
    qed
  qed
qed

lemma load_files_first_bad_date:
  assumes "\<forall>f \<in> set pre. endswith f ''.csv'' \<longrightarrow>
             (\<exists>t d. read_csv env (path_join folder_path f) = Inr t \<and> to_datetime env (stem f) = Inr d)"
    and "endswith file ''.csv''"
    and "read_csv env (path_join folder_path file) = Inr t"
    and "to_datetime env (stem file) = Inl e"
  shows "load_files env folder_path (pre @ file # post) data = Inl e"
  using assms by (induction pre arbitrary: data) auto

text \<open>
  Claim C6, as the code has it. When the directory holds a file whose name ends in
  \<^verbatim>\<open>.csv\<close> and whose name without the extension the date parser rejects with an
  exception, \<open>load_data\<close> returns no table,
  partial or other: it fails, and the error it returns is the one that reading or
  date-parsing one of the directory's CSV files raised.
\<close>

theorem load_data_bad_date_fails:
  assumes ls: "listdir env folder_path = Inr names"
    and mem: "file \<in> set names"
    and csv: "endswith file ''.csv''"
    and bad: "to_datetime env (stem file) = Inl e"
  shows "\<exists>e' f. load_data env time_point folder_path = Inl e' \<and>
           f \<in> set names \<and> endswith f ''.csv'' \<and>
           (read_csv env (path_join folder_path f) = Inl e' \<or> to_datetime env (stem f) = Inl e')"
proof -
  from mem have "file \<in> set (sort names)" by simp
  from load_files_bad_date [OF this csv bad, of folder_path "[]"]
  obtain e' f where "load_files env folder_path (sort names) [] = Inl e'"
    and "f \<in> set names" "endswith f ''.csv''"
    and "read_csv env (path_join folder_path f) = Inl e' \<or> to_datetime env (stem f) = Inl e'"
    by auto
  with ls show ?thesis by (auto simp: load_data_def)
qed

lemma load_data_bad_date_example:
  "load_data example_env time_point_default ''eco/mixed'' = Inl DateParseError"
  by (simp add: load_data_def example_env_def example_listdir_def endswith_def read_csv_def
        path_join_def example_parse_csv_def set_date_def stem_def example_to_datetime_def)

text \<open>
  Claim C6 as stated, that a CSV file whose name without the extension is no calendar
  date makes the load fail, fails on the directory with the file \<^verbatim>\<open>.csv\<close>: the date
  parser maps the empty name to NaT and raises nothing, the load goes on and returns a
  table, and the rows of that file, which are before no cutoff, are dropped by the
  filter.
\<close>

theorem load_data_undated_file_counterexample:
  "listdir example_env ''eco/hidden'' = Inr [''.csv'', ''2012-06-27.csv'']
   \<and> endswith ''.csv'' ''.csv''
   \<and> to_datetime example_env (stem ''.csv'') = Inr None
   \<and> load_data example_env time_point_default ''eco/hidden''
       = Inr \<lparr>ncols = 1, rows = [\<lparr>cells = [Some 3600000], date = Some (2012, 6, 27)\<rparr>]\<rparr>
   \<and> \<not> (\<exists>e. load_data example_env time_point_default ''eco/hidden'' = Inl e)"
  by (simp add: load_data_def example_env_def example_listdir_def endswith_def read_csv_def
        path_join_def example_parse_csv_def set_date_def stem_def example_to_datetime_def
        pd_concat_def max_ncols_def pad_def filter_before_def before_def time_point_default_def)

text \<open>
  A directory with a dated file and \<^verbatim>\<open>notes.csv\<close>: the load fails although the dated
  file, first in the order, was read.
\<close>

theorem load_data_bad_date_fails_witness:
  "listdir example_env ''eco/mixed'' = Inr [''notes.csv'', ''2012-06-27.csv'']
   \<and> ''notes.csv'' \<in> set [''notes.csv'', ''2012-06-27.csv'']
   \<and> endswith ''notes.csv'' ''.csv''
   \<and> to_datetime example_env (stem ''notes.csv'') = Inl DateParseError
   \<and> (\<exists>e'. load_data example_env time_point_default ''eco/mixed'' = Inl e')"
proof -
  have ls: "listdir example_env ''eco/mixed'' = Inr [''notes.csv'', ''2012-06-27.csv'']"
    by (simp add: example_env_def example_listdir_def)
  have mem: "''notes.csv'' \<in> set [''notes.csv'', ''2012-06-27.csv'']" by simp
  have csv: "endswith ''notes.csv'' ''.csv''" by (simp add: endswith_def)
  have bad: "to_datetime example_env (stem ''notes.csv'') = Inl DateParseError"
    by (simp add: example_env_def example_to_datetime_def stem_def)
  from load_data_bad_date_fails [OF ls mem csv bad, of time_point_default]
  have "\<exists>e'. load_data example_env time_point_default ''eco/mixed'' = Inl e'" by blast
  with ls mem csv bad show ?thesis by blast
qed

subsection \<open>The unit conversion\<close>

lemma kwh_eq: "kwh x = x / 3600000"
  by (simp add: kwh_def)

lemma power_convert_row: "power_of (convert_row r) = to_kwh (power_of r)"
  by (simp add: power_of_def convert_row_def column0_def to_kwh_def split: list.splits)

lemma rows_convert_power: "rows (convert_power df) = map convert_row (rows df)"
  by (simp add: convert_power_def)

lemma normalize_sm_eq:
  "normalize_sm df =
     (if ncols df = 16 then Inr (convert_power df) else Inl (ValueError ''Length mismatch''))"
  by (simp add: normalize_sm_def set_columns_def sm_columns_def)

lemma normalize_plug_eq:
  "normalize_plug df =
     (if ncols df = 1 then Inr (convert_power df) else Inl (ValueError ''Length mismatch''))"
  by (simp add: normalize_plug_def set_columns_def plug_columns_def)

text \<open>
  Claim C2. The conversion divides each value of the power column by 3,600,000, and
  3,600,000 becomes exactly 1: so for one cell, for the power column of a whole table,
  and so is the result of the normaliser on a meter table (sixteen columns and the date,
  power column \<^verbatim>\<open>powerallphases\<close>) and on a plug table (one column and the date,
  power column \<^verbatim>\<open>power\<close>).
\<close>

theorem power_converted_to_kwh:
  "to_kwh (Some 3600000) = Some 1
   \<and> to_kwh (Some x) = Some (x / 3600000)
   \<and> map power_of (rows (convert_power df)) = map (\<lambda>r. map_option (\<lambda>x. x / 3600000) (power_of r)) (rows df)
   \<and> (ncols sm_data = 16 \<longrightarrow> normalize_sm sm_data = Inr (convert_power sm_data))
   \<and> (ncols plug_data = 1 \<longrightarrow> normalize_plug plug_data = Inr (convert_power plug_data))"
proof -
  have a: "to_kwh (Some 3600000) = Some 1" by (simp add: to_kwh_def kwh_eq)
  have b: "to_kwh (Some x) = Some (x / 3600000)" by (simp add: to_kwh_def kwh_eq)
  have c: "map power_of (rows (convert_power df)) = map (\<lambda>r. map_option (\<lambda>x. x / 3600000) (power_of r)) (rows df)"
    by (simp add: rows_convert_power power_convert_row to_kwh_def kwh_eq [abs_def])
  have d: "ncols sm_data = 16 \<longrightarrow> normalize_sm sm_data = Inr (convert_power sm_data)"
    by (simp add: normalize_sm_eq)
  have e: "ncols plug_data = 1 \<longrightarrow> normalize_plug plug_data = Inr (convert_power plug_data)"
    by (simp add: normalize_plug_eq)
  from a b c d e show ?thesis by blast
qed

text \<open>
  The sample meter table has 1 kWh in its power column after the normaliser, the sample
  plug table half a kWh and a missing value.
\<close>

theorem power_converted_to_kwh_witness:
  "ncols example_sm_data = 16 \<and> ncols example_plug_data = 1
   \<and> (\<exists>df. normalize_sm example_sm_data = Inr df \<and> map power_of (rows df) = [Some 1])
   \<and> (\<exists>df. normalize_plug example_plug_data = Inr df \<and> map power_of (rows df) = [Some (1 / 2), None])"
proof -
  have h1: "ncols example_sm_data = 16" by (simp add: example_sm_data_def)
  have h2: "ncols example_plug_data = 1" by (simp add: example_plug_data_def)
  note t = power_converted_to_kwh [of 0 example_sm_data example_sm_data example_plug_data]
  note u = power_converted_to_kwh [of 0 example_plug_data example_sm_data example_plug_data]
  from t h1 have n1: "normalize_sm example_sm_data = Inr (convert_power example_sm_data)" by blast
  from t h2 have n2: "normalize_plug example_plug_data = Inr (convert_power example_plug_data)" by blast
  from t have p1: "map power_of (rows (convert_power example_sm_data)) = [Some 1]"
    by (simp add: example_sm_data_def power_of_def column0_def)
  from u have p2: "map power_of (rows (convert_power example_plug_data)) = [Some (1 / 2), None]"
    by (simp add: example_plug_data_def power_of_def column0_def)
  from h1 h2 n1 n2 p1 p2 show ?thesis by simp
qed

text \<open>
  Claim C7. The conversion is linear, and multiplying a converted value by 3,600,000
  gives the raw value back, exactly, over the rationals: for a number, for a cell, and
  for the power column of a table.
\<close>

theorem conversion_reversible:
  "kwh x * 3600000 = x
   \<and> kwh (a * x + b * y) = a * kwh x + b * kwh y
   \<and> map_option (\<lambda>y. y * 3600000) (to_kwh c) = c
   \<and> map (\<lambda>r. map_option (\<lambda>y. y * 3600000) (power_of r)) (rows (convert_power df)) = map power_of (rows df)"
proof -
  have a: "kwh x * 3600000 = x" by (simp add: kwh_eq)
  have b: "kwh (a * x + b * y) = a * kwh x + b * kwh y"
    by (simp add: kwh_eq add_divide_distrib)
  have c: "map_option (\<lambda>y. y * 3600000) (to_kwh c) = c" for c
    by (cases c) (simp_all add: to_kwh_def kwh_eq)
  have d: "map (\<lambda>r. map_option (\<lambda>y. y * 3600000) (power_of r)) (rows (convert_power df)) = map power_of (rows df)"
    by (simp add: rows_convert_power power_convert_row c)
  from a b c d show ?thesis by blast
qed

text \<open>
  Claim C8. A second conversion divides the raw value by 3,600,000 twice, which differs
  from the value converted once unless the raw value is zero; the conversion is not
  idempotent on tables, as the sample plug table shows.
\<close>

theorem conversion_not_idempotent:
  "kwh (kwh x) = x / 3600000 / 3600000
   \<and> (kwh (kwh x) = kwh x \<longleftrightarrow> x = 0)
   \<and> map power_of (rows (convert_power (convert_power df)))
       = map (\<lambda>r. map_option (\<lambda>x. x / 3600000 / 3600000) (power_of r)) (rows df)
   \<and> convert_power (convert_power example_plug_data) \<noteq> convert_power example_plug_data"
proof -
  have a: "kwh (kwh x) = x / 3600000 / 3600000" by (simp add: kwh_eq)
  have b: "kwh (kwh x) = kwh x \<longleftrightarrow> x = 0" by (simp add: kwh_eq)
  have c: "map power_of (rows (convert_power (convert_power df)))
       = map (\<lambda>r. map_option (\<lambda>x. x / 3600000 / 3600000) (power_of r)) (rows df)"
    by (simp add: rows_convert_power power_convert_row to_kwh_def kwh_eq [abs_def]
          option.map_comp comp_def)
  have d: "convert_power (convert_power example_plug_data) \<noteq> convert_power example_plug_data"
    by (simp add: convert_power_def example_plug_data_def convert_row_def to_kwh_def kwh_eq)
  from a b c d show ?thesis by blast
qed

text \<open>
  Claim C10. The conversion leaves the number of columns, the number and order of the
  rows, the date of every row and every cell of every row but the first one as they
  were; the normaliser of a meter table and of a plug table is this conversion whenever
  the column names fit, and changes nothing else.
\<close>

theorem conversion_frame:
  "ncols (convert_power df) = ncols df
   \<and> length (rows (convert_power df)) = length (rows df)
   \<and> map date (rows (convert_power df)) = map date (rows df)
   \<and> map (\<lambda>r. tl (cells r)) (rows (convert_power df)) = map (\<lambda>r. tl (cells r)) (rows df)
   \<and> map (\<lambda>r. length (cells r)) (rows (convert_power df)) = map (\<lambda>r. length (cells r)) (rows df)
   \<and> normalize_sm df =
       (if ncols df = 16 then Inr (convert_power df) else Inl (ValueError ''Length mismatch''))
   \<and> normalize_plug df =
       (if ncols df = 1 then Inr (convert_power df) else Inl (ValueError ''Length mismatch''))"
proof -
  have dt: "date (convert_row r) = date r" for r :: "'a row"
    by (simp add: convert_row_def)
  have tl: "tl (cells (convert_row r)) = tl (cells r)" for r :: "'a row"
    by (simp add: convert_row_def split: list.splits)
  have ln: "length (cells (convert_row r)) = length (cells r)" for r :: "'a row"
    by (simp add: convert_row_def split: list.splits)
  have a: "ncols (convert_power df) = ncols df" by (simp add: convert_power_def)
  have b: "length (rows (convert_power df)) = length (rows df)" by (simp add: rows_convert_power)
  have c: "map date (rows (convert_power df)) = map date (rows df)"
    by (simp add: rows_convert_power dt)
  have d: "map (\<lambda>r. tl (cells r)) (rows (convert_power df)) = map (\<lambda>r. tl (cells r)) (rows df)"
    by (simp add: rows_convert_power tl)
  have e: "map (\<lambda>r. length (cells r)) (rows (convert_power df)) = map (\<lambda>r. length (cells r)) (rows df)"
    by (simp add: rows_convert_power ln)
  from a b c d e normalize_sm_eq [of df] normalize_plug_eq [of df] show ?thesis by simp
qed

subsection \<open>The aggregator\<close>

lemma nansum_map_power: "nansum (map power_of rs) = sum_list (map reading rs)"
  by (induction rs) (simp_all add: nansum_def reading_def)

lemma sum_list_absent_key:
  fixes v :: rat
  assumes "k \<notin> set ks"
  shows "sum_list (map (\<lambda>k'. if k = k' then v else 0) ks) = 0"
  using assms by (induction ks) auto

lemma sum_list_single_key:
  fixes v :: rat
  assumes "distinct ks" "k \<in> set ks"
  shows "sum_list (map (\<lambda>k'. if k = k' then v else 0) ks) = v"
  using assms by (induction ks) (auto simp: sum_list_absent_key)

lemma sum_list_groups:
  fixes f :: "'a \<Rightarrow> rat"
  assumes "distinct ks" "key ` set xs \<subseteq> set ks"
  shows "sum_list (map (\<lambda>k. sum_list (map f (filter (\<lambda>x. key x = k) xs))) ks) = sum_list (map f xs)"
  using assms(2)
proof (induction xs)
  case Nil
  then show ?case by simp
next
  case (Cons x xs)
  then have mem: "key x \<in> set ks" and sub: "key ` set xs \<subseteq> set ks" by auto
  have "sum_list (map (\<lambda>k. sum_list (map f (filter (\<lambda>y. key y = k) (x # xs)))) ks)
      = sum_list (map (\<lambda>k. (if key x = k then f x else 0)
                            + sum_list (map f (filter (\<lambda>y. key y = k) xs))) ks)"
    by (intro arg_cong [where f = sum_list] map_cong) auto
  also have "\<dots> = sum_list (map (\<lambda>k. if key x = k then f x else 0) ks)
                 + sum_list (map (\<lambda>k. sum_list (map f (filter (\<lambda>y. key y = k) xs))) ks)"
    by (simp add: sum_list_addf)
  also have "\<dots> = f x + sum_list (map f xs)"
    using sum_list_single_key [OF assms(1) mem] Cons.IH [OF sub] by simp
  finally show ?case by simp
qed

lemma appliance_keys:
  "map (\<lambda>t. (ap_household t, ap_appliance t)) (total_appliance_power plugs)
     = sort (remdups (map (\<lambda>r. (household r, appliance r)) plugs))"
  by (simp add: total_appliance_power_def comp_def)

lemma household_keys:
  "map hp_household (total_household_power sm) = sort (remdups (map household sm))"
  by (simp add: total_household_power_def comp_def)

lemma appliance_group_sum:
  assumes "t \<in> set (total_appliance_power plugs)"
  shows "ap_power t = nansum (map power_of
           (filter (\<lambda>r. household r = ap_household t \<and> appliance r = ap_appliance t) plugs))"
proof -
  from assms obtain k where "t = \<lparr>ap_household = fst k, ap_appliance = snd k,
      ap_power = nansum (map power_of (filter (\<lambda>r. (household r, appliance r) = k) plugs))\<rparr>"
    by (auto simp: total_appliance_power_def)
  then show ?thesis
    by (cases k) (simp add: conj_commute)
qed

lemma household_group_sum:
  assumes "t \<in> set (total_household_power sm)"
  shows "hp_powerallphases t = nansum (map power_of (filter (\<lambda>r. household r = hp_household t) sm))"
  using assms by (auto simp: total_household_power_def)

lemma appliance_conservation:
  "sum_list (map ap_power (total_appliance_power plugs)) = nansum (map power_of plugs)"
proof -
  let ?key = "\<lambda>r. (household r, appliance r)"
  let ?ks = "sort (remdups (map ?key plugs))"
  have "sum_list (map ap_power (total_appliance_power plugs))
      = sum_list (map (\<lambda>k. sum_list (map reading (filter (\<lambda>r. ?key r = k) plugs))) ?ks)"
    by (simp add: total_appliance_power_def comp_def nansum_map_power)
  also have "\<dots> = sum_list (map reading plugs)"
    by (rule sum_list_groups) auto
  finally show ?thesis by (simp add: nansum_map_power)
qed

lemma household_conservation:
  "sum_list (map hp_powerallphases (total_household_power sm)) = nansum (map power_of sm)"
proof -
  let ?ks = "sort (remdups (map household sm))"
  have "sum_list (map hp_powerallphases (total_household_power sm))
      = sum_list (map (\<lambda>k. sum_list (map reading (filter (\<lambda>r. household r = k) sm))) ?ks)"
    by (simp add: total_household_power_def comp_def nansum_map_power)
  also have "\<dots> = sum_list (map reading sm)"
    by (rule sum_list_groups) auto
  finally show ?thesis by (simp add: nansum_map_power)
qed

text \<open>
  Claim C4. Every total of the aggregator is the sum of the power values of exactly the
  rows of its group: the rows with that household and that appliance for a plug total,
  the rows with that household for a meter total. The groups are the keys that occur in
  the table, each once, so no row is left out: the totals of all groups add up to the
  sum over all rows of the table.
\<close>

theorem totals_are_group_sums:
  "(\<forall>t \<in> set (total_appliance_power plugs).
       ap_power t = nansum (map power_of
         (filter (\<lambda>r. household r = ap_household t \<and> appliance r = ap_appliance t) plugs)))
   \<and> (\<forall>t \<in> set (total_household_power sm).
       hp_powerallphases t = nansum (map power_of (filter (\<lambda>r. household r = hp_household t) sm)))
   \<and> set (map (\<lambda>t. (ap_household t, ap_appliance t)) (total_appliance_power plugs))
       = set (map (\<lambda>r. (household r, appliance r)) plugs)
   \<and> distinct (map (\<lambda>t. (ap_household t, ap_appliance t)) (total_appliance_power plugs))
   \<and> set (map hp_household (total_household_power sm)) = set (map household sm)
   \<and> distinct (map hp_household (total_household_power sm))
   \<and> sum_list (map ap_power (total_appliance_power plugs)) = nansum (map power_of plugs)
   \<and> sum_list (map hp_powerallphases (total_household_power sm)) = nansum (map power_of sm)"
proof -
  have a: "\<forall>t \<in> set (total_appliance_power plugs).
       ap_power t = nansum (map power_of
         (filter (\<lambda>r. household r = ap_household t \<and> appliance r = ap_appliance t) plugs))"
    using appliance_group_sum by blast
  have b: "\<forall>t \<in> set (total_household_power sm).
       hp_powerallphases t = nansum (map power_of (filter (\<lambda>r. household r = hp_household t) sm))"
    using household_group_sum by blast
  have c: "set (map (\<lambda>t. (ap_household t, ap_appliance t)) (total_appliance_power plugs))
       = set (map (\<lambda>r. (household r, appliance r)) plugs)"
    unfolding appliance_keys by simp
  have d: "distinct (map (\<lambda>t. (ap_household t, ap_appliance t)) (total_appliance_power plugs))"
    unfolding appliance_keys by simp
  have e: "set (map hp_household (total_household_power sm)) = set (map household sm)"
    unfolding household_keys by simp
  have f: "distinct (map hp_household (total_household_power sm))"
    unfolding household_keys by simp
  from a b c d e f appliance_conservation [of plugs] household_conservation [of sm]
  show ?thesis by blast
qed


lemma household_totals_distinct: "distinct (map hp_household (total_household_power sm))"
  unfolding household_keys by simp

lemma household_total_unique:
  assumes "h \<in> set (total_household_power sm)" "ht \<in> set (total_household_power sm)"
    and "hp_household h = hp_household ht"
  shows "h = ht"
  using assms household_totals_distinct [of sm]
  by (auto simp: distinct_map dest: inj_onD)

lemma filter_unique_household:
  assumes "distinct (map hp_household hs)" "ht \<in> set hs"
  shows "filter (\<lambda>h. hp_household h = hp_household ht) hs = [ht]"
  using assms
proof (induction hs)
  case Nil
  then show ?case by simp
next
  case (Cons h hs)
  show ?case
  proof (cases "h = ht")
    case True
    with Cons.prems(1) have "hp_household ht \<notin> hp_household ` set hs" by simp
    then have "\<forall>h' \<in> set hs. hp_household h' \<noteq> hp_household ht" by (metis imageI)
    then have "filter (\<lambda>h. hp_household h = hp_household ht) hs = []"
      by (simp add: filter_empty_conv)
    with True show ?thesis by simp
  next
    case False
    with Cons.prems have "ht \<in> set hs" and "hp_household h \<noteq> hp_household ht" by auto
    with Cons.IH Cons.prems(1) show ?thesis by simp
  qed
qed

lemma merge_rows_of_household:
  assumes "distinct (map hp_household right)" "ht \<in> set right"
  shows "filter (\<lambda>r. tp_household r = hp_household ht) (merge_on_household left right)
       = map (\<lambda>a. \<lparr>tp_household = ap_household a, tp_appliance = ap_appliance a,
                    tp_power = ap_power a, tp_powerallphases = hp_powerallphases ht\<rparr>)
             (filter (\<lambda>a. ap_household a = hp_household ht) left)"
proof (induction left)
  case Nil
  then show ?case by (simp add: merge_on_household_def)
next
  case (Cons a left)
  have step: "merge_on_household (a # left) right
      = map (\<lambda>h. \<lparr>tp_household = ap_household a, tp_appliance = ap_appliance a,
                   tp_power = ap_power a, tp_powerallphases = hp_powerallphases h\<rparr>)
            (filter (\<lambda>h. hp_household h = ap_household a) right)
        @ merge_on_household left right"
    by (simp add: merge_on_household_def)
  show ?case
  proof (cases "ap_household a = hp_household ht")
    case True
    then have "filter (\<lambda>h. hp_household h = ap_household a) right = [ht]"
      using filter_unique_household [OF assms] by simp
    with True Cons.IH show ?thesis by (simp add: step)
  next
    case False
    with Cons.IH show ?thesis by (simp add: step filter_empty_conv)
  qed
qed

lemma filter_add_percentage:
  "filter (\<lambda>r. tp_household r = h) (add_percentage merged)
     = add_percentage (filter (\<lambda>r. tp_household r = h) merged)"
  by (induction merged) (simp_all add: add_percentage_def)

lemma percentages_of_household:
  assumes "ht \<in> set (total_household_power sm)"
  shows "map percentage (filter (\<lambda>r. tp_household r = hp_household ht) (total_power plugs sm))
       = map (\<lambda>a. ftimes (fdiv (ap_power a) (hp_powerallphases ht)) 100)
             (filter (\<lambda>a. ap_household a = hp_household ht) (total_appliance_power plugs))"
  unfolding total_power_def filter_add_percentage
    merge_rows_of_household [OF household_totals_distinct assms]
  by (simp add: add_percentage_def comp_def)

lemma fsum_Finite: "fsum (map (\<lambda>a. Finite (g a)) xs) = Finite (sum_list (map g xs))"
  by (induction xs) simp_all

lemma sum_list_shares:
  fixes T :: rat
  shows "sum_list (map (\<lambda>a. g a / T * 100) xs) = sum_list (map g xs) / T * 100"
  by (induction xs) (simp_all add: add_divide_distrib distrib_right)


lemma example_total_household_power:
  "total_household_power example_sm =
     [\<lparr>hp_household = ''Household 4'', hp_powerallphases = 4\<rparr>,
      \<lparr>hp_household = ''Household 5'', hp_powerallphases = 0\<rparr>,
      \<lparr>hp_household = ''Household 6'', hp_powerallphases = 2\<rparr>]"
  by (simp add: total_household_power_def example_sm_def combined_sm_data_def with_household_def
        meter_frame_def power_of_def column0_def nansum_def)

lemma example_total_appliance_power:
  "total_appliance_power example_plugs =
     [\<lparr>ap_household = ''Household 4'', ap_appliance = ''01'', ap_power = 2\<rparr>,
      \<lparr>ap_household = ''Household 4'', ap_appliance = ''02'', ap_power = 1\<rparr>,
      \<lparr>ap_household = ''Household 5'', ap_appliance = ''01'', ap_power = 1\<rparr>,
      \<lparr>ap_household = ''Household 6'', ap_appliance = ''01'', ap_power = 2\<rparr>]"
  by (simp add: total_appliance_power_def example_plugs_def combined_plugs_data_def
        with_appliances_def plug_frame_def power_of_def column0_def nansum_def)

lemma example_total_power:
  "total_power example_plugs example_sm =
     [\<lparr>tp_household = ''Household 4'', tp_appliance = ''01'', tp_power = 2,
        tp_powerallphases = 4, percentage = Finite 50\<rparr>,
      \<lparr>tp_household = ''Household 4'', tp_appliance = ''02'', tp_power = 1,
        tp_powerallphases = 4, percentage = Finite 25\<rparr>,
      \<lparr>tp_household = ''Household 5'', tp_appliance = ''01'', tp_power = 1,
        tp_powerallphases = 0, percentage = NonFinite\<rparr>,
      \<lparr>tp_household = ''Household 6'', tp_appliance = ''01'', tp_power = 2,
        tp_powerallphases = 2, percentage = Finite 100\<rparr>]"
  by (simp add: total_power_def example_total_household_power example_total_appliance_power
        merge_on_household_def add_percentage_def fdiv_def ftimes_def)

text \<open>
  In the sample tables appliance 01 of household 4 totals 2 and the meter of household 4
  totals 4, the sums of their rows; all plug rows and all meter rows add up to 6 each.
\<close>

theorem totals_are_group_sums_witness:
  "\<lparr>ap_household = ''Household 4'', ap_appliance = ''01'', ap_power = 2\<rparr>
      \<in> set (total_appliance_power example_plugs)
   \<and> nansum (map power_of
        (filter (\<lambda>r. household r = ''Household 4'' \<and> appliance r = ''01'') example_plugs)) = 2
   \<and> \<lparr>hp_household = ''Household 4'', hp_powerallphases = 4\<rparr>
      \<in> set (total_household_power example_sm)
   \<and> nansum (map power_of (filter (\<lambda>r. household r = ''Household 4'') example_sm)) = 4
   \<and> nansum (map power_of example_plugs) = 6
   \<and> nansum (map power_of example_sm) = 6"
proof -
  note t = totals_are_group_sums [of example_plugs example_sm]
  have m1: "\<lparr>ap_household = ''Household 4'', ap_appliance = ''01'', ap_power = 2\<rparr>
      \<in> set (total_appliance_power example_plugs)"
    by (simp add: example_total_appliance_power)
  have m2: "\<lparr>hp_household = ''Household 4'', hp_powerallphases = 4\<rparr>
      \<in> set (total_household_power example_sm)"
    by (simp add: example_total_household_power)
  from t m1 have s1: "nansum (map power_of
        (filter (\<lambda>r. household r = ''Household 4'' \<and> appliance r = ''01'') example_plugs)) = 2"
    by force
  from t m2 have s2: "nansum (map power_of (filter (\<lambda>r. household r = ''Household 4'') example_sm)) = 4"
    by force
  from t have s3: "nansum (map power_of example_plugs) = 6"
    by (simp add: example_total_appliance_power)
  from t have s4: "nansum (map power_of example_sm) = 6"
    by (simp add: example_total_household_power)
  from m1 s1 m2 s2 s3 s4 show ?thesis by simp
qed

text \<open>
  Claim C3. For a household of the meter table whose meter total is not zero, the
  percentage shares of its appliances add up to the sum of its appliance totals divided
  by its meter total, times 100; nothing makes this 100, as household 4 of the sample
  tables shows.
\<close>

theorem shares_sum_to_ratio:
  assumes "ht \<in> set (total_household_power sm)" and "hp_powerallphases ht \<noteq> 0"
  shows "fsum (map percentage
                (filter (\<lambda>r. tp_household r = hp_household ht) (total_power plugs sm)))
       = Finite (sum_list (map ap_power
                   (filter (\<lambda>a. ap_household a = hp_household ht) (total_appliance_power plugs)))
                 / hp_powerallphases ht * 100)
     \<and> fsum (map percentage
                (filter (\<lambda>r. tp_household r = ''Household 4'') (total_power example_plugs example_sm)))
         \<noteq> Finite 100"
proof -
  let ?apps = "filter (\<lambda>a. ap_household a = hp_household ht) (total_appliance_power plugs)"
  have "map percentage (filter (\<lambda>r. tp_household r = hp_household ht) (total_power plugs sm))
      = map (\<lambda>a. Finite (ap_power a / hp_powerallphases ht * 100)) ?apps"
    using assms(2) by (simp add: percentages_of_household [OF assms(1)] fdiv_def ftimes_def)
  then have "fsum (map percentage
                (filter (\<lambda>r. tp_household r = hp_household ht) (total_power plugs sm)))
       = fsum (map (\<lambda>a. Finite (ap_power a / hp_powerallphases ht * 100)) ?apps)"
    by (rule arg_cong)
  also have "\<dots> = Finite (sum_list (map (\<lambda>a. ap_power a / hp_powerallphases ht * 100) ?apps))"
    by (rule fsum_Finite)
  also have "\<dots> = Finite (sum_list (map ap_power ?apps) / hp_powerallphases ht * 100)"
    by (simp only: sum_list_shares)
  finally have a: "fsum (map percentage
                (filter (\<lambda>r. tp_household r = hp_household ht) (total_power plugs sm)))
       = Finite (sum_list (map ap_power ?apps) / hp_powerallphases ht * 100)" .
  have b: "fsum (map percentage
                (filter (\<lambda>r. tp_household r = ''Household 4'') (total_power example_plugs example_sm)))
         \<noteq> Finite 100"
    by (simp add: example_total_power)
  from a b show ?thesis by blast
qed

text \<open>
  Household 4 of the sample tables: appliance totals 2 and 1, meter total 4, shares 50
  and 25, in sum 75.
\<close>

theorem shares_sum_to_ratio_witness:
  "\<lparr>hp_household = ''Household 4'', hp_powerallphases = 4\<rparr> \<in> set (total_household_power example_sm)
   \<and> fsum (map percentage
        (filter (\<lambda>r. tp_household r = ''Household 4'') (total_power example_plugs example_sm)))
      = Finite 75"
proof -
  let ?ht = "\<lparr>hp_household = ''Household 4'', hp_powerallphases = 4\<rparr>"
  have m: "?ht \<in> set (total_household_power example_sm)"
    by (simp add: example_total_household_power)
  have nz: "hp_powerallphases ?ht \<noteq> 0" by simp
  from shares_sum_to_ratio [OF m nz, of example_plugs]
  have "fsum (map percentage
        (filter (\<lambda>r. tp_household r = ''Household 4'') (total_power example_plugs example_sm)))
      = Finite 75"
    by (simp add: example_total_appliance_power)
  with m show ?thesis by blast
qed

lemma total_power_row:
  assumes "r \<in> set (total_power plugs sm)"
  shows "\<exists>a \<in> set (total_appliance_power plugs). \<exists>h \<in> set (total_household_power sm).
           hp_household h = ap_household a \<and>
           tp_household r = ap_household a \<and> tp_appliance r = ap_appliance a \<and>
           tp_power r = ap_power a \<and> tp_powerallphases r = hp_powerallphases h \<and>
           percentage r = ftimes (fdiv (ap_power a) (hp_powerallphases h)) 100"
proof -
  from assms obtain m where m: "m \<in> set (merge_on_household (total_appliance_power plugs)
                                         (total_household_power sm))"
    and r: "r = \<lparr>tp_household = tp_household m, tp_appliance = tp_appliance m,
                 tp_power = tp_power m, tp_powerallphases = tp_powerallphases m,
                 percentage = ftimes (fdiv (tp_power m) (tp_powerallphases m)) 100\<rparr>"
    by (auto simp: total_power_def add_percentage_def)
  from m obtain a h where a: "a \<in> set (total_appliance_power plugs)"
    and h: "h \<in> set (total_household_power sm)"
    and same: "hp_household h = ap_household a"
    and m': "m = \<lparr>tp_household = ap_household a, tp_appliance = ap_appliance a,
                  tp_power = ap_power a, tp_powerallphases = hp_powerallphases h\<rparr>"
    by (auto simp: merge_on_household_def)
  show ?thesis
    by (rule bexI [OF _ a], rule bexI [OF _ h]) (simp add: same r m')
qed

text \<open>
  Claim C9. Every percentage is the appliance total divided by the meter total of its
  household, times 100, with no test of the divisor: it is a number when the meter total
  is not zero and no number when it is zero. Every share of a household whose meter
  total is zero is no number, and the sample tables reach this case.
\<close>

theorem percentage_unguarded:
  "(\<forall>r \<in> set (total_power plugs sm).
       percentage r = ftimes (fdiv (tp_power r) (tp_powerallphases r)) 100
       \<and> (tp_powerallphases r = 0 \<longrightarrow> percentage r = NonFinite)
       \<and> (tp_powerallphases r \<noteq> 0 \<longrightarrow> percentage r = Finite (tp_power r / tp_powerallphases r * 100)))
   \<and> (\<forall>ht \<in> set (total_household_power sm). hp_powerallphases ht = 0 \<longrightarrow>
        (\<forall>r \<in> set (total_power plugs sm). tp_household r = hp_household ht \<longrightarrow>
           percentage r = NonFinite))
   \<and> (\<exists>r \<in> set (total_power example_plugs example_sm). percentage r = NonFinite)"
proof -
  have a: "percentage r = ftimes (fdiv (tp_power r) (tp_powerallphases r)) 100
       \<and> (tp_powerallphases r = 0 \<longrightarrow> percentage r = NonFinite)
       \<and> (tp_powerallphases r \<noteq> 0 \<longrightarrow> percentage r = Finite (tp_power r / tp_powerallphases r * 100))"
    if "r \<in> set (total_power plugs sm)" for r
    using total_power_row [OF that] by (auto simp: fdiv_def ftimes_def)
  have b: "percentage r = NonFinite"
    if ht: "ht \<in> set (total_household_power sm)" and z: "hp_powerallphases ht = 0"
      and r: "r \<in> set (total_power plugs sm)" and same: "tp_household r = hp_household ht" for ht r
  proof -
    from total_power_row [OF r] obtain a h where "a \<in> set (total_appliance_power plugs)"
      and h: "h \<in> set (total_household_power sm)"
      and hh: "hp_household h = ap_household a" and rh: "tp_household r = ap_household a"
      and p: "percentage r = ftimes (fdiv (ap_power a) (hp_powerallphases h)) 100"
      by blast
    from hh rh same have "hp_household h = hp_household ht" by simp
    from household_total_unique [OF h ht this] have "h = ht" .
    with p z show ?thesis by (simp add: fdiv_def ftimes_def)
  qed
  have c: "\<exists>r \<in> set (total_power example_plugs example_sm). percentage r = NonFinite"
    by (simp add: example_total_power)
  from a b c show ?thesis by blast
qed

text \<open>
  Household 5 of the sample tables has meter total 0; the share of its appliance 01 is
  no number.
\<close>

theorem percentage_unguarded_witness:
  "\<lparr>hp_household = ''Household 5'', hp_powerallphases = 0\<rparr> \<in> set (total_household_power example_sm)
   \<and> \<lparr>tp_household = ''Household 5'', tp_appliance = ''01'', tp_power = 1,
        tp_powerallphases = 0, percentage = NonFinite\<rparr> \<in> set (total_power example_plugs example_sm)
   \<and> (\<exists>r. r \<in> set (total_power example_plugs example_sm) \<and> tp_household r = ''Household 5''
          \<and> tp_powerallphases r = 0 \<and> percentage r = NonFinite)"
proof -
  let ?ht = "\<lparr>hp_household = ''Household 5'', hp_powerallphases = 0\<rparr>"
  let ?r = "\<lparr>tp_household = ''Household 5'', tp_appliance = ''01'', tp_power = 1,
        tp_powerallphases = 0, percentage = NonFinite\<rparr>"
  have m: "?ht \<in> set (total_household_power example_sm)"
    by (simp add: example_total_household_power)
  have r: "?r \<in> set (total_power example_plugs example_sm)"
    by (simp add: example_total_power)
  from percentage_unguarded [of example_plugs example_sm] m r
  have "percentage ?r = NonFinite" by simp
  with m r show ?thesis by force
qed

end
